theory Spec2Isabelle
  imports
    Complex_Main
    "HOL-Library.AList"
    "HOL-Library.Multiset"
    "HOL-Library.Char_ord"
    "HOL-Library.List_Lexorder"
begin

section \<open>Strings and cells of the data frame\<close>

text \<open>
  A Python string is modelled as the list of its code points, for code points below 256.
  \<open>isspace\<close> is the set of those code points that \<^verbatim>\<open>str.strip()\<close> removes:
  TAB, LF, VT, FF, CR, the separators 0x1C to 0x1F, SPACE, NEL (0x85) and NBSP (0xA0).
\<close>

definition isspace :: "char \<Rightarrow> bool" where
  "isspace c = ((of_char c :: nat) \<in> {9, 10, 11, 12, 13, 28, 29, 30, 31, 32, 133, 160})"

definition strip :: "string \<Rightarrow> string" where
  "strip s = rev (dropWhile isspace (rev (dropWhile isspace s)))"

text \<open>
  A cell of one of the three text columns, as \<^verbatim>\<open>read_csv\<close> delivers it: the float
  \<^verbatim>\<open>nan\<close> for a missing value, a string otherwise. \<open>py_str\<close> is Python's
  \<^verbatim>\<open>str(...)\<close> on such a cell.
\<close>

datatype cell = NaN | Text string

fun py_str :: "cell \<Rightarrow> string" where
  "py_str NaN = ''nan''"
| "py_str (Text s) = s"

text \<open>
  A cell of the \<^verbatim>\<open>total\<close> column before \<^verbatim>\<open>pd.to_numeric\<close>: missing, already
  a number, or a string still to be parsed. The parser of numeric strings belongs to
  pandas; it is the parameter \<open>parse\<close>, and \<open>None\<close> stands for the \<^verbatim>\<open>nan\<close> that
  \<^verbatim>\<open>errors='coerce'\<close> produces.
\<close>

datatype 'a amount_cell = Missing | Number 'a | Raw string

fun to_numeric :: "(string \<Rightarrow> 'a option) \<Rightarrow> 'a amount_cell \<Rightarrow> 'a option" where
  "to_numeric parse Missing = None"
| "to_numeric parse (Number x) = Some x"
| "to_numeric parse (Raw s) = parse s"

record 'a row =
  service_category :: cell
  service_sub_category :: cell
  service_unit :: cell
  total_cell :: "'a amount_cell"

section \<open>Floating-point amounts\<close>

text \<open>
  The amounts of the program are IEEE 754 binary64 numbers. \<open>Double m e\<close> is the finite
  double of value \<open>m * 2 ^ e\<close>, kept in canonical form: \<open>m\<close> odd, or \<open>m = 0\<close> and
  \<open>e = 0\<close>; so equality of canonical values is Python's \<^verbatim>\<open>==\<close> on floats. Addition is
  the exact sum rounded to 53 significant bits, ties to even. Infinities, \<^verbatim>\<open>nan\<close>
  results and overflow of the exponent range are outside this model.
\<close>

datatype double = Double (mant: int) (expo: int)

function bit_length :: "int \<Rightarrow> int" where
  "bit_length n = (if n \<le> 0 then 0 else 1 + bit_length (n div 2))"
  by pat_completeness auto
termination
  by (relation "measure nat") auto

declare bit_length.simps [simp del]

definition round_half_even :: "int \<Rightarrow> nat \<Rightarrow> int" where
  "round_half_even n k =
     (let q = n div 2 ^ k; r = n mod 2 ^ k
      in if 2 ^ k < 2 * r \<or> (2 * r = 2 ^ k \<and> odd q) then q + 1 else q)"

function canon :: "int \<Rightarrow> int \<Rightarrow> double" where
  "canon m e =
     (if m = 0 then Double 0 0
      else if even m then canon (m div 2) (e + 1)
      else Double m e)"
  by pat_completeness auto
termination
  by (relation "measure (\<lambda>(m, e). nat \<bar>m\<bar>)") auto

declare canon.simps [simp del]

definition double_add :: "double \<Rightarrow> double \<Rightarrow> double" where
  "double_add a b =
     (let e = min (expo a) (expo b);
          s = mant a * 2 ^ nat (expo a - e) + mant b * 2 ^ nat (expo b - e);
          k = nat (bit_length \<bar>s\<bar> - 53)
      in canon (sgn s * round_half_even \<bar>s\<bar> k) (e + int k))"

instantiation double :: "{zero, plus, minus}"
begin

definition zero_double :: double where
  "0 = Double 0 0"

definition plus_double :: "double \<Rightarrow> double \<Rightarrow> double" where
  "a + b = double_add a b"

definition minus_double :: "double \<Rightarrow> double \<Rightarrow> double" where
  "a - b = double_add a (Double (- mant b) (expo b))"

instance ..

end

text \<open>The rational number that a double denotes.\<close>

definition double_value :: "double \<Rightarrow> rat" where
  "double_value d =
     (if 0 \<le> expo d then of_int (mant d) * 2 ^ nat (expo d)
      else of_int (mant d) / 2 ^ nat (- expo d))"

section \<open>The analyzer\<close>

text \<open>
  A dictionary is an association list in insertion order, with distinct keys. An
  assignment to a present key keeps its place, a new key goes to the end:
  \<^const>\<open>AList.update\<close>.

  The functions are written for any type of amounts that has \<open>0\<close> and \<open>+\<close>, as the
  Python code is; the program applies them to doubles.
\<close>

type_synonym ('k, 'v) dict = "('k \<times> 'v) list"

type_synonym 'a service_data = "(string, (string, (string, 'a) dict) dict) dict"

type_synonym 'a entry = "string \<times> string \<times> string \<times> 'a"

text \<open>
  Lines 47 to 52 of \<^verbatim>\<open>analyze_azure_services\<close>, for one row: \<^verbatim>\<open>dropna\<close> on the
  category, \<^verbatim>\<open>to_numeric\<close> with coercion, \<^verbatim>\<open>dropna\<close> on the total. A row that is
  dropped gives \<open>None\<close>.
\<close>

definition clean_row :: "(string \<Rightarrow> 'a option) \<Rightarrow> 'a row \<Rightarrow> (string \<times> cell \<times> cell \<times> 'a) option" where
  "clean_row parse r =
     (case service_category r of
        NaN \<Rightarrow> None
      | Text category \<Rightarrow>
          (case to_numeric parse (total_cell r) of
             None \<Rightarrow> None
           | Some t \<Rightarrow> Some (category, service_sub_category r, service_unit r, t)))"

definition df_clean :: "(string \<Rightarrow> 'a option) \<Rightarrow> 'a row list \<Rightarrow> (string \<times> cell \<times> cell \<times> 'a) list" where
  "df_clean parse df = List.map_filter (clean_row parse) df"

text \<open>
  Lines 63 and 69: the conditional expression that computes \<^verbatim>\<open>subcategory\<close> and
  \<^verbatim>\<open>unit\<close>. \<^verbatim>\<open>str\<close> and \<^verbatim>\<open>strip\<close> do not raise on a string or a float, so the
  \<^verbatim>\<open>except\<close> branch is never taken.
\<close>

definition clean_label :: "cell \<Rightarrow> string" where
  "clean_label x =
     (if py_str x \<noteq> ''nan'' \<and> strip (py_str x) \<noteq> [] then strip (py_str x) else ''N/A'')"

text \<open>Lines 59 to 73: the four values the loop body computes from a row of \<open>df_clean\<close>.\<close>

definition row_entry :: "string \<times> cell \<times> cell \<times> 'a \<Rightarrow> 'a entry" where
  "row_entry r = (case r of (category, sub, unit, t) \<Rightarrow> (category, clean_label sub, clean_label unit, t))"

definition normalize_row :: "(string \<Rightarrow> 'a option) \<Rightarrow> 'a row \<Rightarrow> 'a entry option" where
  "normalize_row parse r = map_option row_entry (clean_row parse r)"

text \<open>
  Line 76, \<^verbatim>\<open>service_data[category][subcategory][unit] += total\<close>, on nested
  \<^verbatim>\<open>defaultdict\<close>s: a missing level is created empty, a missing total starts at
  \<^verbatim>\<open>float()\<close>, that is \<open>0\<close>.
\<close>

definition getitem_default :: "('k, 'v) dict \<Rightarrow> 'k \<Rightarrow> 'v \<Rightarrow> 'v" where
  "getitem_default d k dflt = (case map_of d k of None \<Rightarrow> dflt | Some v \<Rightarrow> v)"

definition add_amount :: "('a::{zero,plus}) service_data \<Rightarrow> 'a entry \<Rightarrow> 'a service_data" where
  "add_amount service_data e =
     (case e of (category, subcategory, unit, t) \<Rightarrow>
        (let subcategories = getitem_default service_data category [];
             units = getitem_default subcategories subcategory [];
             cur = getitem_default units unit 0
         in AList.update category
              (AList.update subcategory (AList.update unit (cur + t) units) subcategories)
              service_data))"

definition aggregate :: "('a::{zero,plus}) entry list \<Rightarrow> 'a service_data" where
  "aggregate entries = fold (\<lambda>e service_data. add_amount service_data e) entries []"

definition analyze_azure_services :: "(string \<Rightarrow> 'a option) \<Rightarrow> 'a row list \<Rightarrow> ('a::{zero,plus}) service_data" where
  "analyze_azure_services parse df = aggregate (map row_entry (df_clean parse df))"

text \<open>
  \<^verbatim>\<open>calculate_category_totals\<close>: the three nested loops run in the insertion order of
  the dictionaries, from the integer \<open>0\<close>.
\<close>

definition calculate_category_totals :: "('a::{zero,plus}) service_data \<Rightarrow> (string, 'a) dict" where
  "calculate_category_totals service_data =
     fold (\<lambda>(category, subcategories) category_totals.
             AList.update category
               (fold (\<lambda>(subcategory, units) category_total.
                        fold (\<lambda>(unit, total_amount) acc. acc + total_amount) units category_total)
                     subcategories 0)
               category_totals)
          service_data []"

text \<open>Python's \<^verbatim>\<open>sum\<close> of a sequence: a left fold from \<open>0\<close>.\<close>

definition py_sum :: "('a::{zero,plus}) list \<Rightarrow> 'a" where
  "py_sum xs = fold (\<lambda>x acc. acc + x) xs 0"

definition dict_values :: "('k, 'v) dict \<Rightarrow> 'v list" where
  "dict_values d = map snd d"

definition dict_keys :: "('k, 'v) dict \<Rightarrow> 'k list" where
  "dict_keys d = map fst d"

section \<open>Comparison of two analyses\<close>

text \<open>
  An argument of the comparison functions is a dictionary or \<^verbatim>\<open>None\<close>.
  \<open>categories_of\<close> is the expression \<^verbatim>\<open>set(data.keys()) if data else set()\<close>:
  \<^verbatim>\<open>None\<close> and the empty dictionary are both false.
\<close>

definition categories_of :: "(string, 'v) dict option \<Rightarrow> string set" where
  "categories_of data =
     (case data of
        None \<Rightarrow> {}
      | Some d \<Rightarrow> if d = [] then {} else set (dict_keys d))"

definition compare_service_data ::
  "(string, 'v) dict option \<Rightarrow> (string, 'v) dict option \<Rightarrow> string list \<times> string list" where
  "compare_service_data old_data new_data =
     (let old_categories = categories_of old_data;
          new_categories = categories_of new_data;
          missing_services = old_categories - new_categories;
          added_services = new_categories - old_categories
      in (sorted_list_of_set missing_services, sorted_list_of_set added_services))"

datatype py_error = TypeError | AttributeError | ValueError

text \<open>
  The operator \<^verbatim>\<open>category in data\<close>: membership among the keys of a dictionary, a
  \<^verbatim>\<open>TypeError\<close> on \<^verbatim>\<open>None\<close>.
\<close>

definition contains :: "(string, 'v) dict option \<Rightarrow> string \<Rightarrow> py_error + bool" where
  "contains data k =
     (case data of
        None \<Rightarrow> Inl TypeError
      | Some d \<Rightarrow> Inr (k \<in> set (dict_keys d)))"

text \<open>\<^verbatim>\<open>d.get(k, dflt)\<close>, and \<^verbatim>\<open>d[k]\<close> for a key taken from \<^verbatim>\<open>d\<close> itself.\<close>

definition dict_get :: "('k, 'v) dict \<Rightarrow> 'k \<Rightarrow> 'v \<Rightarrow> 'v" where
  "dict_get d k dflt = (case map_of d k of None \<Rightarrow> dflt | Some v \<Rightarrow> v)"

text \<open>
  The lines of the text rendering, without their formatting: what is printed for a
  category, a subcategory, a unit with its amount, a category total, a category that
  one side lacks, and the padding of the shorter column.
\<close>

datatype 'a line =
    CategoryLine string
  | NewCategoryLine string
  | MissingLine string
  | SubcategoryLine string
  | UnitLine string 'a
  | TotalLine 'a
  | NoLine

text \<open>
  \<^verbatim>\<open>for k in sorted(d.keys())\<close> with \<^verbatim>\<open>d[k]\<close> in the body: the items of the
  dictionary in ascending order of their keys.
\<close>

definition sorted_items :: "('k::linorder, 'v) dict \<Rightarrow> ('k \<times> 'v) list" where
  "sorted_items d = sort_key fst d"

text \<open>
  The body of \<^verbatim>\<open>display_dual_service_comparison\<close> that lists one side of a category
  (lines 486 to 499 and 512 to 525).
\<close>

definition side_listing :: "(string, (string, 'a) dict) dict \<Rightarrow> 'a line list" where
  "side_listing subcategories =
     concat (map (\<lambda>(subcategory, units).
                    SubcategoryLine subcategory #
                    map (\<lambda>(unit, total_amount). UnitLine unit total_amount) (sorted_items units))
                 (sorted_items subcategories))"

text \<open>
  \<^verbatim>\<open>calculate_category_totals(data) if data else {}\<close> (lines 478 and 479).
\<close>

definition totals_of :: "('a::{zero,plus}) service_data option \<Rightarrow> (string, 'a) dict" where
  "totals_of data =
     (case data of
        None \<Rightarrow> []
      | Some d \<Rightarrow> if d = [] then [] else calculate_category_totals d)"

text \<open>Lines 483 to 501: the left column of one category.\<close>

definition left_content ::
  "('a::{zero,plus}) service_data option \<Rightarrow> (string, 'a) dict \<Rightarrow> string \<Rightarrow> py_error + 'a line list" where
  "left_content old_data old_totals category =
     (case contains old_data category of
        Inl err \<Rightarrow> Inl err
      | Inr present \<Rightarrow>
          if present
          then Inr (CategoryLine category #
                    side_listing (dict_get (case old_data of None \<Rightarrow> [] | Some d \<Rightarrow> d) category []) @
                    [TotalLine (dict_get old_totals category 0)])
          else Inr [MissingLine category])"

text \<open>Lines 504 to 527: the right column of one category.\<close>

definition right_content ::
  "('a::{zero,plus}) service_data option \<Rightarrow> 'a service_data option \<Rightarrow> (string, 'a) dict \<Rightarrow> string
     \<Rightarrow> py_error + 'a line list" where
  "right_content old_data new_data new_totals category =
     (case contains new_data category of
        Inl err \<Rightarrow> Inl err
      | Inr present \<Rightarrow>
          if present
          then (case contains old_data category of
                  Inl err \<Rightarrow> Inl err
                | Inr in_old \<Rightarrow>
                    Inr ((if \<not> in_old then NewCategoryLine category else CategoryLine category) #
                         side_listing (dict_get (case new_data of None \<Rightarrow> [] | Some d \<Rightarrow> d) category []) @
                         [TotalLine (dict_get new_totals category 0)]))
          else Inr [MissingLine category])"

text \<open>Lines 530 to 534: the two columns printed side by side, the shorter one padded.\<close>

fun side_by_side :: "'a line list \<Rightarrow> 'a line list \<Rightarrow> ('a line \<times> 'a line) list" where
  "side_by_side [] [] = []"
| "side_by_side (l # ls) [] = (l, NoLine) # side_by_side ls []"
| "side_by_side [] (r # rs) = (NoLine, r) # side_by_side [] rs"
| "side_by_side (l # ls) (r # rs) = (l, r) # side_by_side ls rs"

definition category_block ::
  "('a::{zero,plus}) service_data option \<Rightarrow> 'a service_data option \<Rightarrow> (string, 'a) dict \<Rightarrow> (string, 'a) dict
     \<Rightarrow> string \<Rightarrow> py_error + ('a line \<times> 'a line) list" where
  "category_block old_data new_data old_totals new_totals category =
     (case left_content old_data old_totals category of
        Inl err \<Rightarrow> Inl err
      | Inr left \<Rightarrow>
          (case right_content old_data new_data new_totals category of
             Inl err \<Rightarrow> Inl err
           | Inr right \<Rightarrow> Inr (side_by_side left right)))"

text \<open>A loop whose body may raise: the first exception ends it.\<close>

fun for_each :: "('x \<Rightarrow> py_error + 'y) \<Rightarrow> 'x list \<Rightarrow> py_error + 'y list" where
  "for_each body [] = Inr []"
| "for_each body (x # xs) =
     (case body x of
        Inl err \<Rightarrow> Inl err
      | Inr y \<Rightarrow> (case for_each body xs of Inl err \<Rightarrow> Inl err | Inr ys \<Rightarrow> Inr (y # ys)))"

text \<open>
  Lines 468 to 536 of \<^verbatim>\<open>display_dual_service_comparison\<close>: one block of printed
  line pairs for each category of either side, in ascending order.
\<close>

definition display_dual_service_comparison ::
  "('a::{zero,plus}) service_data option \<Rightarrow> 'a service_data option
     \<Rightarrow> py_error + ('a line \<times> 'a line) list list" where
  "display_dual_service_comparison old_data new_data =
     (let all_categories = categories_of old_data \<union> categories_of new_data;
          sorted_categories = sorted_list_of_set all_categories;
          old_totals = totals_of old_data;
          new_totals = totals_of new_data
      in for_each (category_block old_data new_data old_totals new_totals) sorted_categories)"

text \<open>
  Lines 357 to 392 of \<^verbatim>\<open>generate_comparison_pdf\<close>: for each category, subcategory
  and unit of either side, the table row of the old amount, the new amount and the
  change, before formatting. \<^verbatim>\<open>old_data.keys()\<close> raises on \<^verbatim>\<open>None\<close>.

  Lines 360 and 368 build a \<^verbatim>\<open>Paragraph\<close> from the name of the category and of the
  subcategory. The report library reads that text as markup and raises a
  \<^verbatim>\<open>ValueError\<close> when it is not well formed, which ends the report. The library's
  parser is the parameter \<open>paragraph\<close>: whether it accepts the heading of a name.
\<close>

datatype heading = CategoryHeading string | SubcategoryHeading string

definition unit_rows :: "(string, 'a) dict \<Rightarrow> (string, 'a) dict \<Rightarrow> (string \<times> 'a \<times> 'a \<times> ('a::{zero,minus})) list" where
  "unit_rows old_sub_data new_sub_data =
     (let all_units = sorted_list_of_set (set (dict_keys old_sub_data) \<union> set (dict_keys new_sub_data))
      in map (\<lambda>unit.
                let old_amount = dict_get old_sub_data unit 0;
                    new_amount = dict_get new_sub_data unit 0;
                    change = new_amount - old_amount
                in (unit, old_amount, new_amount, change))
             all_units)"

definition subcategory_tables ::
  "(heading \<Rightarrow> bool) \<Rightarrow> (string, (string, 'a) dict) dict \<Rightarrow> (string, (string, 'a) dict) dict
     \<Rightarrow> py_error + (string \<times> (string \<times> 'a \<times> 'a \<times> ('a::{zero,minus})) list) list" where
  "subcategory_tables paragraph old_cat_data new_cat_data =
     (let all_subcategories = sorted_list_of_set (set (dict_keys old_cat_data) \<union> set (dict_keys new_cat_data))
      in for_each (\<lambda>subcategory.
                     if \<not> paragraph (SubcategoryHeading subcategory) then Inl ValueError
                     else Inr (subcategory,
                               unit_rows (dict_get old_cat_data subcategory [])
                                         (dict_get new_cat_data subcategory [])))
                  all_subcategories)"

definition detailed_comparison ::
  "(heading \<Rightarrow> bool) \<Rightarrow> ('a::{zero,minus}) service_data option \<Rightarrow> 'a service_data option
     \<Rightarrow> py_error + (string \<times> (string \<times> (string \<times> 'a \<times> 'a \<times> 'a) list) list) list" where
  "detailed_comparison paragraph old_data new_data =
     (case old_data of
        None \<Rightarrow> Inl AttributeError
      | Some old \<Rightarrow>
          (case new_data of
             None \<Rightarrow> Inl AttributeError
           | Some new \<Rightarrow>
               (let all_categories = sorted_list_of_set (set (dict_keys old) \<union> set (dict_keys new))
                in for_each (\<lambda>category.
                               if \<not> paragraph (CategoryHeading category) then Inl ValueError
                               else (case subcategory_tables paragraph
                                            (dict_get old category []) (dict_get new category []) of
                                       Inl err \<Rightarrow> Inl err
                                     | Inr tables \<Rightarrow> Inr (category, tables)))
                            all_categories)))"

section \<open>Views used to state the properties\<close>

text \<open>
  The three-level mapping that a dictionary of dictionaries denotes. Two dictionaries
  with distinct keys are equal for Python's \<^verbatim>\<open>==\<close> exactly when they denote the same
  mapping, whatever their insertion orders.
\<close>

definition as_mapping ::
  "'a service_data \<Rightarrow> string \<Rightarrow> (string \<Rightarrow> (string \<Rightarrow> 'a option) option) option" where
  "as_mapping service_data =
     (\<lambda>category. map_option (\<lambda>subcategories.
        (\<lambda>subcategory. map_option map_of (map_of subcategories subcategory)))
        (map_of service_data category))"

definition lookup3 :: "'a service_data \<Rightarrow> string \<Rightarrow> string \<Rightarrow> string \<Rightarrow> 'a option" where
  "lookup3 service_data category subcategory unit =
     (case map_of service_data category of
        None \<Rightarrow> None
      | Some subcategories \<Rightarrow>
          (case map_of subcategories subcategory of
             None \<Rightarrow> None
           | Some units \<Rightarrow> map_of units unit))"


definition trimmed_or_sentinel :: "string \<Rightarrow> bool" where
  "trimmed_or_sentinel k = (k = ''N/A'' \<or> (k \<noteq> [] \<and> \<not> isspace (hd k) \<and> \<not> isspace (last k)))"

text \<open>The invariant of the second and third key of an analysis.\<close>

definition keys_ok :: "'a service_data \<Rightarrow> bool" where
  "keys_ok service_data =
     (\<forall>(category, subcategories) \<in> set service_data.
        \<forall>(subcategory, units) \<in> set subcategories.
          trimmed_or_sentinel subcategory \<and> (\<forall>unit \<in> set (dict_keys units). trimmed_or_sentinel unit))"

text \<open>
  The totals of one subcategory, one category and a whole analysis as plain sums, for
  amounts whose addition is exact.
\<close>

definition units_total :: "(string, 'a::comm_monoid_add) dict \<Rightarrow> 'a" where
  "units_total units = sum_list (map snd units)"

definition category_total :: "(string, (string, 'a::comm_monoid_add) dict) dict \<Rightarrow> 'a" where
  "category_total subcategories = sum_list (map (\<lambda>(subcategory, units). units_total units) subcategories)"

definition grand_total :: "('a::comm_monoid_add) service_data \<Rightarrow> 'a" where
  "grand_total service_data = sum_list (map (\<lambda>(category, subcategories). category_total subcategories) service_data)"

text \<open>
  What line 76 does to the mapping that the dictionaries denote.
\<close>

definition map_add ::
  "('a::{zero,plus}) entry \<Rightarrow> (string \<Rightarrow> (string \<Rightarrow> (string \<Rightarrow> 'a option) option) option)
     \<Rightarrow> (string \<Rightarrow> (string \<Rightarrow> (string \<Rightarrow> 'a option) option) option)" where
  "map_add e m =
     (case e of (category, subcategory, unit, t) \<Rightarrow>
        (let subcategories = (case m category of None \<Rightarrow> Map.empty | Some x \<Rightarrow> x);
             units = (case subcategories subcategory of None \<Rightarrow> Map.empty | Some x \<Rightarrow> x);
             cur = (case units unit of None \<Rightarrow> 0 | Some x \<Rightarrow> x)
         in m(category \<mapsto> subcategories(subcategory \<mapsto> units(unit \<mapsto> cur + t)))))"

text \<open>
  The keys of the three levels alone, and what line 76 does to them.
\<close>

definition key_structure :: "'a service_data \<Rightarrow> string \<Rightarrow> (string \<Rightarrow> string set option) option" where
  "key_structure service_data =
     (\<lambda>category. map_option (\<lambda>subcategories. (\<lambda>subcategory. map_option dom (subcategories subcategory)))
        (as_mapping service_data category))"

definition key_add ::
  "'a entry \<Rightarrow> (string \<Rightarrow> (string \<Rightarrow> string set option) option)
     \<Rightarrow> (string \<Rightarrow> (string \<Rightarrow> string set option) option)" where
  "key_add e m =
     (case e of (category, subcategory, unit, t) \<Rightarrow>
        (let subcategories = (case m category of None \<Rightarrow> Map.empty | Some x \<Rightarrow> x);
             units = (case subcategories subcategory of None \<Rightarrow> {} | Some x \<Rightarrow> x)
         in m(category \<mapsto> subcategories(subcategory \<mapsto> insert unit units))))"

section \<open>Normalization of labels\<close>

lemma strip_hd_last:
  assumes "strip s \<noteq> []"
  shows "\<not> isspace (hd (strip s)) \<and> \<not> isspace (last (strip s))"
proof -
  define t where "t = dropWhile isspace s"
  define d where "d = dropWhile isspace (rev t)"
  have st: "strip s = rev d" by (simp add: strip_def t_def d_def)
  with assms have dne: "d \<noteq> []" by simp
  have "\<not> isspace (hd d)" using dne unfolding d_def by (rule hd_dropWhile)
  then have l: "\<not> isspace (last (strip s))" using dne by (simp add: st last_rev)
  have "rev t = takeWhile isspace (rev t) @ d" by (simp add: d_def)
  then have "t = rev d @ rev (takeWhile isspace (rev t))"
    by (metis rev_append rev_rev_ident)
  then have "hd t = hd (rev d)" using dne by (metis hd_append2 rev_is_Nil_conv)
  moreover have "t \<noteq> []" using dne d_def by auto
  then have "\<not> isspace (hd t)" unfolding t_def by (rule hd_dropWhile)
  ultimately show ?thesis using l by (simp add: st)
qed

lemma clean_label_trimmed: "trimmed_or_sentinel (clean_label x)"
  using strip_hd_last [of "py_str x"] by (simp add: clean_label_def trimmed_or_sentinel_def)


lemma set_update_cases:
  "(k', v') \<in> set (AList.update k v al) \<Longrightarrow> (k' = k \<and> v' = v) \<or> (k', v') \<in> set al"
  by (induction al) (auto split: if_splits)

lemma getitem_default_cases:
  "getitem_default d k dflt = dflt \<or> (k, getitem_default d k dflt) \<in> set d"
  by (auto simp: getitem_default_def split: option.splits dest: map_of_SomeD)

lemma keys_update_cases:
  "u' \<in> set (dict_keys (AList.update u v units)) \<Longrightarrow> u' = u \<or> u' \<in> set (dict_keys units)"
  by (auto simp: dict_keys_def dest: set_update_cases)

lemma keys_ok_add_amount:
  assumes ok: "keys_ok sd" and s: "trimmed_or_sentinel s" and u: "trimmed_or_sentinel u"
  shows "keys_ok (add_amount sd (c, s, u, t))"
  unfolding keys_ok_def
proof (clarify)
  fix c' subs' s' units'
  assume c': "(c', subs') \<in> set (add_amount sd (c, s, u, t))" and s': "(s', units') \<in> set subs'"
  define subs where "subs = getitem_default sd c []"
  define units where "units = getitem_default subs s []"
  have subs_ok: "\<forall>(s0, us0) \<in> set subs. trimmed_or_sentinel s0 \<and> (\<forall>u0 \<in> set (dict_keys us0). trimmed_or_sentinel u0)"
    using getitem_default_cases [of sd c "[]"] ok unfolding subs_def keys_ok_def by fastforce
  have units_ok: "\<forall>u0 \<in> set (dict_keys units). trimmed_or_sentinel u0"
    using getitem_default_cases [of subs s "[]"] subs_ok unfolding units_def
    by (fastforce simp: dict_keys_def)
  have new_units_ok: "\<forall>u0 \<in> set (dict_keys (AList.update u v units)). trimmed_or_sentinel u0" for v
    using units_ok u by (auto dest: keys_update_cases)
  from c' have "(c' = c \<and> subs' = AList.update s (AList.update u (getitem_default units u 0 + t) units) subs)
      \<or> (c', subs') \<in> set sd"
    by (auto simp: add_amount_def Let_def subs_def units_def dest: set_update_cases)
  then show "trimmed_or_sentinel s' \<and> (\<forall>unit \<in> set (dict_keys units'). trimmed_or_sentinel unit)"
  proof
    assume "c' = c \<and> subs' = AList.update s (AList.update u (getitem_default units u 0 + t) units) subs"
    with s' have "(s' = s \<and> units' = AList.update u (getitem_default units u 0 + t) units) \<or> (s', units') \<in> set subs"
      by (auto dest: set_update_cases)
    then show ?thesis using s new_units_ok subs_ok by auto
  next
    assume "(c', subs') \<in> set sd"
    with ok s' show ?thesis unfolding keys_ok_def by fastforce
  qed
qed

lemma keys_ok_fold:
  assumes "keys_ok sd" and "\<forall>(c, s, u, t) \<in> set es. trimmed_or_sentinel s \<and> trimmed_or_sentinel u"
  shows "keys_ok (fold (\<lambda>e service_data. add_amount service_data e) es sd)"
  using assms
proof (induction es arbitrary: sd)
  case Nil
  then show ?case by simp
next
  case (Cons e es)
  obtain c s u t where e: "e = (c, s, u, t)" by (cases e) auto
  with Cons.prems have "keys_ok (add_amount sd e)" by (auto intro: keys_ok_add_amount)
  with Cons show ?case by simp
qed

lemma keys_ok_analyze: "keys_ok (analyze_azure_services parse df)"
  unfolding analyze_azure_services_def aggregate_def
  by (rule keys_ok_fold) (auto simp: keys_ok_def row_entry_def clean_label_trimmed)

section \<open>Totals in exact arithmetic\<close>

lemma fold_add_sum_list:
  fixes a :: "'a::comm_monoid_add"
  shows "fold (\<lambda>x acc. acc + f x) xs a = a + sum_list (map f xs)"
  by (induction xs arbitrary: a) (simp_all add: ac_simps)

lemma py_sum_sum_list: "py_sum xs = sum_list (xs :: ('a::comm_monoid_add) list)"
  using fold_add_sum_list [of "\<lambda>x. x" xs 0] by (simp add: py_sum_def)

lemma units_loop:
  fixes a :: "'a::comm_monoid_add"
  shows "fold (\<lambda>(unit, total_amount) acc. acc + total_amount) units a = a + units_total units"
  using fold_add_sum_list [of snd units a] by (simp add: units_total_def case_prod_unfold)

lemma subcategories_loop:
  fixes a :: "'a::comm_monoid_add"
  shows "fold (\<lambda>(subcategory, units) category_total.
                 fold (\<lambda>(unit, total_amount) acc. acc + total_amount) units category_total)
              subcategories a
         = a + category_total subcategories"
proof -
  have "(\<lambda>(subcategory, units) category_total.
            fold (\<lambda>(unit, total_amount) acc. acc + total_amount) units category_total)
        = (\<lambda>p (acc :: 'a). acc + units_total (snd p))"
    by (auto simp: fun_eq_iff units_loop)
  then have "fold (\<lambda>(subcategory, units) category_total.
                     fold (\<lambda>(unit, total_amount) acc. acc + total_amount) units category_total)
                  subcategories a
             = fold (\<lambda>p (acc :: 'a). acc + units_total (snd p)) subcategories a"
    by (rule arg_cong [where f = "\<lambda>f. fold f subcategories a"])
  also have "\<dots> = a + sum_list (map (\<lambda>p. units_total (snd p)) subcategories)"
    by (rule fold_add_sum_list)
  finally show ?thesis
    by (simp add: category_total_def case_prod_unfold)
qed

lemma update_fresh: "k \<notin> fst ` set al \<Longrightarrow> AList.update k v al = al @ [(k, v)]"
  by (induction al) auto

lemma fold_update_distinct:
  assumes "distinct (map fst xs)" and "fst ` set xs \<inter> fst ` set acc = {}"
  shows "fold (\<lambda>(k, v) acc. AList.update k (g v) acc) xs acc = acc @ map (\<lambda>(k, v). (k, g v)) xs"
  using assms
proof (induction xs arbitrary: acc)
  case Nil
  then show ?case by simp
next
  case (Cons x xs)
  obtain k v where x: "x = (k, v)" by (cases x)
  from Cons.prems x have fresh: "k \<notin> fst ` set acc" by auto
  have step: "AList.update k (g v) acc = acc @ [(k, g v)]" using fresh by (rule update_fresh)
  have "fst ` set xs \<inter> fst ` set (acc @ [(k, g v)]) = {}"
    using Cons.prems x by auto
  moreover have "distinct (map fst xs)" using Cons.prems by simp
  ultimately have "fold (\<lambda>(k, v) acc. AList.update k (g v) acc) xs (acc @ [(k, g v)])
      = (acc @ [(k, g v)]) @ map (\<lambda>(k, v). (k, g v)) xs"
    by (rule Cons.IH [rotated])
  then show ?case by (simp add: x step)
qed

lemma calculate_category_totals_distinct:
  fixes sd :: "('a::comm_monoid_add) service_data"
  assumes "distinct (map fst sd)"
  shows "calculate_category_totals sd = map (\<lambda>(category, subcategories). (category, category_total subcategories)) sd"
  using fold_update_distinct [of sd "[]" category_total] assms
  by (simp add: calculate_category_totals_def subcategories_loop)

lemma sum_totals:
  fixes sd :: "('a::comm_monoid_add) service_data"
  assumes "distinct (map fst sd)"
  shows "py_sum (dict_values (calculate_category_totals sd)) = grand_total sd"
  by (simp add: calculate_category_totals_distinct [OF assms] py_sum_sum_list dict_values_def
      grand_total_def comp_def case_prod_unfold)

lemma sum_update:
  fixes G :: "'v \<Rightarrow> 'a::comm_monoid_add"
  assumes "case map_of al k of None \<Rightarrow> G v = t | Some w \<Rightarrow> G v = G w + t"
  shows "sum_list (map (\<lambda>(k, v). G v) (AList.update k v al)) = sum_list (map (\<lambda>(k, v). G v) al) + t"
  using assms by (induction al) (auto simp: ac_simps split: if_splits)

lemma units_total_update:
  fixes t :: "'a::comm_monoid_add"
  shows "units_total (AList.update u (getitem_default units u 0 + t) units) = units_total units + t"
proof -
  have "sum_list (map (\<lambda>(k, v). v) (AList.update u (getitem_default units u 0 + t) units))
      = sum_list (map (\<lambda>(k, v). v) units) + t"
    by (rule sum_update) (simp add: getitem_default_def split: option.splits)
  then show ?thesis by (simp add: units_total_def case_prod_unfold)
qed

lemma category_total_update:
  fixes t :: "'a::comm_monoid_add"
  assumes "units = getitem_default subs s []"
  shows "category_total (AList.update s (AList.update u (getitem_default units u 0 + t) units) subs)
         = category_total subs + t"
proof -
  let ?new = "AList.update u (getitem_default units u 0 + t) units"
  have new: "units_total ?new = units_total units + t" by (rule units_total_update)
  have "case map_of subs s of None \<Rightarrow> units_total ?new = t | Some w \<Rightarrow> units_total ?new = units_total w + t"
  proof (cases "map_of subs s")
    case None
    then have "units = []" by (simp add: assms getitem_default_def)
    with new None show ?thesis by (simp add: units_total_def)
  next
    case (Some w)
    then have "units = w" by (simp add: assms getitem_default_def)
    with new Some show ?thesis by simp
  qed
  then show ?thesis unfolding category_total_def by (rule sum_update)
qed

lemma grand_total_add_amount:
  fixes t :: "'a::comm_monoid_add"
  shows "grand_total (add_amount sd (c, s, u, t)) = grand_total sd + t"
proof -
  define subs where "subs = getitem_default sd c []"
  define units where "units = getitem_default subs s []"
  let ?new = "AList.update s (AList.update u (getitem_default units u 0 + t) units) subs"
  have new: "category_total ?new = category_total subs + t"
    using units_def by (rule category_total_update)
  have "case map_of sd c of None \<Rightarrow> category_total ?new = t
        | Some w \<Rightarrow> category_total ?new = category_total w + t"
  proof (cases "map_of sd c")
    case None
    then have "subs = []" by (simp add: subs_def getitem_default_def)
    with new None show ?thesis by (simp add: category_total_def)
  next
    case (Some w)
    then have "subs = w" by (simp add: subs_def getitem_default_def)
    with new Some show ?thesis by simp
  qed
  then have "sum_list (map (\<lambda>(k, v). category_total v) (AList.update c ?new sd))
      = sum_list (map (\<lambda>(k, v). category_total v) sd) + t"
    by (rule sum_update)
  then show ?thesis
    by (simp add: grand_total_def add_amount_def Let_def subs_def units_def)
qed

lemma distinct_add_amount: "distinct (map fst sd) \<Longrightarrow> distinct (map fst (add_amount sd e))"
  by (cases e) (simp add: add_amount_def Let_def distinct_update)

lemma aggregate_fold_totals:
  fixes sd :: "('a::comm_monoid_add) service_data"
  assumes "distinct (map fst sd)"
  shows "distinct (map fst (fold (\<lambda>e service_data. add_amount service_data e) es sd))
         \<and> grand_total (fold (\<lambda>e service_data. add_amount service_data e) es sd)
             = grand_total sd + sum_list (map (\<lambda>(c, s, u, t). t) es)"
  using assms
proof (induction es arbitrary: sd)
  case Nil
  then show ?case by simp
next
  case (Cons e es)
  obtain c s u t where e: "e = (c, s, u, t)" by (cases e) auto
  have d: "distinct (map fst (add_amount sd e))" using Cons.prems by (rule distinct_add_amount)
  show ?case using Cons.IH [OF d] by (simp add: e grand_total_add_amount ac_simps)
qed

section \<open>The mapping under permutation of the entries\<close>

lemma as_mapping_add_amount: "as_mapping (add_amount sd e) = map_add e (as_mapping sd)"
proof -
  obtain c s u t where e: "e = (c, s, u, t)" by (cases e) auto
  show ?thesis
    by (rule ext)
       (auto simp: e as_mapping_def add_amount_def map_add_def Let_def getitem_default_def
          update_conv' fun_eq_iff split: option.splits)
qed

lemma as_mapping_fold:
  "as_mapping (fold (\<lambda>e service_data. add_amount service_data e) es sd) = fold map_add es (as_mapping sd)"
  by (induction es arbitrary: sd) (simp_all add: as_mapping_add_amount)

lemma map_add_commute:
  fixes e1 e2 :: "('a::comm_monoid_add) entry"
  shows "map_add e1 (map_add e2 m) = map_add e2 (map_add e1 m)"
proof -
  obtain c1 s1 u1 t1 where e1: "e1 = (c1, s1, u1, t1)" by (cases e1) auto
  obtain c2 s2 u2 t2 where e2: "e2 = (c2, s2, u2, t2)" by (cases e2) auto
  show ?thesis
  proof (cases "c1 = c2")
    case False
    then show ?thesis by (auto simp: e1 e2 map_add_def Let_def fun_upd_twist)
  next
    case c: True
    show ?thesis
    proof (cases "s1 = s2")
      case False
      then show ?thesis using c by (auto simp: e1 e2 map_add_def Let_def fun_upd_twist split: option.splits)
    next
      case s: True
      show ?thesis
      proof (cases "u1 = u2")
        case False
        then show ?thesis using c s
          by (auto simp: e1 e2 map_add_def Let_def fun_upd_twist split: option.splits)
      next
        case True
        then show ?thesis using c s
          by (auto simp: e1 e2 map_add_def Let_def ac_simps split: option.splits)
      qed
    qed
  qed
qed

lemma key_structure_add_amount: "key_structure (add_amount sd e) = key_add e (key_structure sd)"
proof -
  obtain c s u t where e: "e = (c, s, u, t)" by (cases e) auto
  define m where "m = as_mapping sd"
  have "map_option (\<lambda>subcategories. (\<lambda>subcategory. map_option dom (subcategories subcategory)))
          (map_add (c, s, u, t) m c')
        = key_add (c, s, u, t)
            (\<lambda>category. map_option (\<lambda>subcategories. (\<lambda>subcategory. map_option dom (subcategories subcategory)))
               (m category)) c'" for c'
  proof (cases "c' = c")
    case False
    then show ?thesis by (simp add: map_add_def key_add_def Let_def)
  next
    case True
    show ?thesis
    proof (cases "m c")
      case None
      then show ?thesis using True by (auto simp: map_add_def key_add_def Let_def fun_eq_iff)
    next
      case (Some sm)
      show ?thesis
      proof (cases "sm s")
        case None
        then show ?thesis using True Some by (auto simp: map_add_def key_add_def Let_def fun_eq_iff)
      next
        case (Some um)
        then show ?thesis using True \<open>m c = Some sm\<close>
          by (auto simp: map_add_def key_add_def Let_def fun_eq_iff)
      qed
    qed
  qed
  then show ?thesis
    by (simp add: key_structure_def as_mapping_add_amount e m_def fun_eq_iff)
qed

lemma key_structure_fold:
  "key_structure (fold (\<lambda>e service_data. add_amount service_data e) es sd) = fold key_add es (key_structure sd)"
  by (induction es arbitrary: sd) (simp_all add: key_structure_add_amount)

lemma key_add_commute: "key_add e1 (key_add e2 m) = key_add e2 (key_add e1 m)"
proof -
  obtain c1 s1 u1 t1 where e1: "e1 = (c1, s1, u1, t1)" by (cases e1) auto
  obtain c2 s2 u2 t2 where e2: "e2 = (c2, s2, u2, t2)" by (cases e2) auto
  show ?thesis
  proof (cases "c1 = c2")
    case False
    then show ?thesis by (auto simp: e1 e2 key_add_def Let_def fun_upd_twist)
  next
    case c: True
    show ?thesis
    proof (cases "s1 = s2")
      case False
      then show ?thesis using c by (auto simp: e1 e2 key_add_def Let_def fun_upd_twist split: option.splits)
    next
      case True
      then show ?thesis using c
        by (auto simp: e1 e2 key_add_def Let_def insert_commute split: option.splits)
    qed
  qed
qed

lemma key_structure_permutation:
  assumes "mset xs = mset ys"
  shows "key_structure (aggregate xs) = key_structure (aggregate ys)"
proof -
  have "key_add x \<circ> key_add y = key_add y \<circ> key_add x" for x y :: "'a entry"
    by (rule ext) (simp only: comp_apply, rule key_add_commute)
  then have "fold key_add xs = fold key_add ys"
    using assms by (intro fold_multiset_equiv)
  then show ?thesis by (simp add: aggregate_def key_structure_fold)
qed

section \<open>Rows and their contribution\<close>

lemma lookup3_add_amount:
  "lookup3 (add_amount sd (c, s, u, t)) c' s' u'
   = (if c' = c \<and> s' = s \<and> u' = u
      then Some ((case lookup3 sd c s u of None \<Rightarrow> 0 | Some x \<Rightarrow> x) + t)
      else lookup3 sd c' s' u')"
  by (auto simp: lookup3_def add_amount_def Let_def getitem_default_def update_conv'
      split: option.splits)

lemma df_clean_append: "df_clean parse (xs @ ys) = df_clean parse xs @ df_clean parse ys"
  by (simp add: df_clean_def List.map_filter_def)

lemma df_clean_Cons:
  "df_clean parse (r # rs) = (case clean_row parse r of None \<Rightarrow> df_clean parse rs | Some x \<Rightarrow> x # df_clean parse rs)"
  by (simp add: df_clean_def List.map_filter_def split: option.splits)

lemma df_clean_Nil: "df_clean parse [] = []"
  by (simp add: df_clean_def List.map_filter_def)

lemma clean_row_None_iff:
  "clean_row parse r = None \<longleftrightarrow> service_category r = NaN \<or> to_numeric parse (total_cell r) = None"
  by (auto simp: clean_row_def split: cell.splits option.splits)



lemma finite_categories_of: "finite (categories_of d)"
  by (simp add: categories_of_def split: option.splits)

section \<open>Properties\<close>

subsection \<open>Sum of the category totals\<close>

text \<open>
  Claim C1, as amended. With amounts that are added exactly, that is, in any type where
  addition is associative and commutative with neutral element \<open>0\<close>, the sum of the
  category totals of an analysis
  (\<^verbatim>\<open>sum(calculate_category_totals(service_data).values())\<close>) equals the sum of the
  amounts of the rows that survive normalization: those whose category is not missing
  and whose total \<^verbatim>\<open>to_numeric\<close> can read.
\<close>

theorem C1_sum_of_totals_exact:
  fixes df :: "('a::comm_monoid_add) row list"
  shows "py_sum (dict_values (calculate_category_totals (analyze_azure_services parse df)))
         = sum_list (map (\<lambda>(category, subcategory, unit, t). t)
                         (List.map_filter (normalize_row parse) df))"
proof -
  have entries: "List.map_filter (normalize_row parse) df = map row_entry (df_clean parse df)"
    by (simp add: List.map_filter_def df_clean_def normalize_row_def comp_def option.map_sel)
  have "distinct (map fst ([] :: 'a service_data))" by simp
  from aggregate_fold_totals [OF this, of "map row_entry (df_clean parse df)"]
  show ?thesis
    by (simp add: sum_totals analyze_azure_services_def aggregate_def entries grand_total_def)
qed

text \<open>
  Claim C1 as stated fails on floating-point amounts. For the rows (Compute, 0.3),
  (Storage, 0.1), (Compute, 0.2) the category totals are 0.5 and 0.1 and their sum is
  0.6, that is \<open>5404319552844595 / 2 ^ 53\<close>, while the amounts summed in row order
  give 0.6000000000000001, that is \<open>1351079888211149 / 2 ^ 51\<close>. The exact sum of the
  three doubles, \<open>21617278211378381 / 2 ^ 55\<close>, is not the value of the sum of the
  totals either.
\<close>

theorem C1_sum_of_totals_counterexample:
  "py_sum (dict_values (calculate_category_totals (analyze_azure_services (\<lambda>s. None)
      [\<lparr>service_category = Text ''Compute'', service_sub_category = Text ''VM'',
        service_unit = Text ''Hours'', total_cell = Number (Double 5404319552844595 (- 54))\<rparr>,
       \<lparr>service_category = Text ''Storage'', service_sub_category = NaN,
        service_unit = Text ''GB'', total_cell = Number (Double 3602879701896397 (- 55))\<rparr>,
       \<lparr>service_category = Text ''Compute'', service_sub_category = Text ''VM'',
        service_unit = Text ''Hours'', total_cell = Number (Double 3602879701896397 (- 54))\<rparr>])))
   \<noteq> py_sum (map (\<lambda>(category, subcategory, unit, t). t) (List.map_filter (normalize_row (\<lambda>s. None))
      [\<lparr>service_category = Text ''Compute'', service_sub_category = Text ''VM'',
        service_unit = Text ''Hours'', total_cell = Number (Double 5404319552844595 (- 54))\<rparr>,
       \<lparr>service_category = Text ''Storage'', service_sub_category = NaN,
        service_unit = Text ''GB'', total_cell = Number (Double 3602879701896397 (- 55))\<rparr>,
       \<lparr>service_category = Text ''Compute'', service_sub_category = Text ''VM'',
        service_unit = Text ''Hours'', total_cell = Number (Double 3602879701896397 (- 54))\<rparr>]))
   \<and> double_value (py_sum (dict_values (calculate_category_totals (analyze_azure_services (\<lambda>s. None)
      [\<lparr>service_category = Text ''Compute'', service_sub_category = Text ''VM'',
        service_unit = Text ''Hours'', total_cell = Number (Double 5404319552844595 (- 54))\<rparr>,
       \<lparr>service_category = Text ''Storage'', service_sub_category = NaN,
        service_unit = Text ''GB'', total_cell = Number (Double 3602879701896397 (- 55))\<rparr>,
       \<lparr>service_category = Text ''Compute'', service_sub_category = Text ''VM'',
        service_unit = Text ''Hours'', total_cell = Number (Double 3602879701896397 (- 54))\<rparr>]))))
   \<noteq> sum_list (map (\<lambda>(category, subcategory, unit, t). double_value t) (List.map_filter (normalize_row (\<lambda>s. None))
      [\<lparr>service_category = Text ''Compute'', service_sub_category = Text ''VM'',
        service_unit = Text ''Hours'', total_cell = Number (Double 5404319552844595 (- 54))\<rparr>,
       \<lparr>service_category = Text ''Storage'', service_sub_category = NaN,
        service_unit = Text ''GB'', total_cell = Number (Double 3602879701896397 (- 55))\<rparr>,
       \<lparr>service_category = Text ''Compute'', service_sub_category = Text ''VM'',
        service_unit = Text ''Hours'', total_cell = Number (Double 3602879701896397 (- 54))\<rparr>]))"
proof -
  let ?df = "[\<lparr>service_category = Text ''Compute'', service_sub_category = Text ''VM'',
        service_unit = Text ''Hours'', total_cell = Number (Double 5404319552844595 (- 54))\<rparr>,
       \<lparr>service_category = Text ''Storage'', service_sub_category = NaN,
        service_unit = Text ''GB'', total_cell = Number (Double 3602879701896397 (- 55))\<rparr>,
       \<lparr>service_category = Text ''Compute'', service_sub_category = Text ''VM'',
        service_unit = Text ''Hours'', total_cell = Number (Double 3602879701896397 (- 54))\<rparr>]"
  have totals: "py_sum (dict_values (calculate_category_totals (analyze_azure_services (\<lambda>s. None) ?df)))
      = Double 5404319552844595 (- 53)"
    by code_simp
  have amounts: "py_sum (map (\<lambda>(category, subcategory, unit, t). t)
        (List.map_filter (normalize_row (\<lambda>s. None)) ?df))
      = Double 1351079888211149 (- 51)"
    by code_simp
  have exact: "sum_list (map (\<lambda>(category, subcategory, unit, t). double_value t)
        (List.map_filter (normalize_row (\<lambda>s. None)) ?df))
      = 21617278211378381 / 2 ^ 55"
    by (simp add: List.map_filter_def normalize_row_def clean_row_def row_entry_def double_value_def)
  have "double_value (Double 5404319552844595 (- 53)) \<noteq> 21617278211378381 / 2 ^ 55"
    by (simp add: double_value_def)
  then show ?thesis
    unfolding totals amounts exact by simp
qed

subsection \<open>Order of the entries\<close>

text \<open>
  Claim C2, as amended. Aggregating a sequence of entries and aggregating any
  permutation of it give dictionaries with the same keys at all three levels, whatever
  the amounts; with amounts that are added exactly (addition associative and commutative
  with neutral element \<open>0\<close>) they denote the same three-level mapping with the same
  totals.
\<close>

theorem C2_order_independent:
  fixes xs ys :: "('a::{zero,plus}) entry list" and us vs :: "('b::comm_monoid_add) entry list"
  assumes "mset xs = mset ys" and "mset us = mset vs"
  shows "key_structure (aggregate xs) = key_structure (aggregate ys)
         \<and> as_mapping (aggregate us) = as_mapping (aggregate vs)"
proof -
  have "map_add x \<circ> map_add y = map_add y \<circ> map_add x" for x y :: "'b entry"
    by (rule ext) (simp only: comp_apply, rule map_add_commute)
  then have "fold map_add us = fold map_add vs"
    using assms(2) by (intro fold_multiset_equiv)
  then have "as_mapping (aggregate us) = as_mapping (aggregate vs)"
    by (simp add: aggregate_def as_mapping_fold)
  with key_structure_permutation [OF assms(1)] show ?thesis by simp
qed

theorem C2_order_independent_witness:
  "mset [(''Compute'', ''VM'', ''Hours'', Double 3602879701896397 (- 55)),
         (''Storage'', ''N/A'', ''GB'', Double 3 0),
         (''Compute'', ''VM'', ''Hours'', Double 5404319552844595 (- 54))]
   = mset [(''Compute'', ''VM'', ''Hours'', Double 5404319552844595 (- 54)),
           (''Compute'', ''VM'', ''Hours'', Double 3602879701896397 (- 55)),
           (''Storage'', ''N/A'', ''GB'', Double 3 0)]
   \<and> mset [(''Compute'', ''VM'', ''Hours'', 10 :: int), (''Storage'', ''N/A'', ''GB'', 3),
           (''Compute'', ''VM'', ''Hours'', 5)]
     = mset [(''Compute'', ''VM'', ''Hours'', 5 :: int), (''Compute'', ''VM'', ''Hours'', 10),
             (''Storage'', ''N/A'', ''GB'', 3)]
   \<and> key_structure (aggregate [(''Compute'', ''VM'', ''Hours'', Double 3602879701896397 (- 55)),
                               (''Storage'', ''N/A'', ''GB'', Double 3 0),
                               (''Compute'', ''VM'', ''Hours'', Double 5404319552844595 (- 54))])
     = key_structure (aggregate [(''Compute'', ''VM'', ''Hours'', Double 5404319552844595 (- 54)),
                                 (''Compute'', ''VM'', ''Hours'', Double 3602879701896397 (- 55)),
                                 (''Storage'', ''N/A'', ''GB'', Double 3 0)])
   \<and> as_mapping (aggregate [(''Compute'', ''VM'', ''Hours'', 10 :: int), (''Storage'', ''N/A'', ''GB'', 3),
                            (''Compute'', ''VM'', ''Hours'', 5)])
     = as_mapping (aggregate [(''Compute'', ''VM'', ''Hours'', 5 :: int), (''Compute'', ''VM'', ''Hours'', 10),
                              (''Storage'', ''N/A'', ''GB'', 3)])"
proof -
  have h1: "mset [(''Compute'', ''VM'', ''Hours'', Double 3602879701896397 (- 55)),
                  (''Storage'', ''N/A'', ''GB'', Double 3 0),
                  (''Compute'', ''VM'', ''Hours'', Double 5404319552844595 (- 54))]
            = mset [(''Compute'', ''VM'', ''Hours'', Double 5404319552844595 (- 54)),
                    (''Compute'', ''VM'', ''Hours'', Double 3602879701896397 (- 55)),
                    (''Storage'', ''N/A'', ''GB'', Double 3 0)]"
    by simp
  have h2: "mset [(''Compute'', ''VM'', ''Hours'', 10 :: int), (''Storage'', ''N/A'', ''GB'', 3),
                  (''Compute'', ''VM'', ''Hours'', 5)]
            = mset [(''Compute'', ''VM'', ''Hours'', 5 :: int), (''Compute'', ''VM'', ''Hours'', 10),
                    (''Storage'', ''N/A'', ''GB'', 3)]"
    by simp
  show ?thesis using h1 h2 C2_order_independent [OF h1 h2] by simp
qed

text \<open>
  Claim C2 as stated fails on floating-point amounts. The doubles 0.1, 0.2 and 0.3 are
  \<open>3602879701896397 / 2 ^ 55\<close>, \<open>3602879701896397 / 2 ^ 54\<close> and
  \<open>5404319552844595 / 2 ^ 54\<close>. As entries of one triple they accumulate to
  0.6000000000000001, which is \<open>1351079888211149 / 2 ^ 51\<close>, and in the reverse order
  to 0.6, which is \<open>5404319552844595 / 2 ^ 53\<close>.
\<close>

theorem C2_order_independent_counterexample:
  "mset [(''Compute'', ''VM'', ''Hours'', Double 3602879701896397 (- 55)),
         (''Compute'', ''VM'', ''Hours'', Double 3602879701896397 (- 54)),
         (''Compute'', ''VM'', ''Hours'', Double 5404319552844595 (- 54))]
   = mset [(''Compute'', ''VM'', ''Hours'', Double 5404319552844595 (- 54)),
           (''Compute'', ''VM'', ''Hours'', Double 3602879701896397 (- 54)),
           (''Compute'', ''VM'', ''Hours'', Double 3602879701896397 (- 55))]
   \<and> as_mapping (aggregate [(''Compute'', ''VM'', ''Hours'', Double 3602879701896397 (- 55)),
                            (''Compute'', ''VM'', ''Hours'', Double 3602879701896397 (- 54)),
                            (''Compute'', ''VM'', ''Hours'', Double 5404319552844595 (- 54))])
     \<noteq> as_mapping (aggregate [(''Compute'', ''VM'', ''Hours'', Double 5404319552844595 (- 54)),
                              (''Compute'', ''VM'', ''Hours'', Double 3602879701896397 (- 54)),
                              (''Compute'', ''VM'', ''Hours'', Double 3602879701896397 (- 55))])"
proof -
  have forward: "aggregate [(''Compute'', ''VM'', ''Hours'', Double 3602879701896397 (- 55)),
                            (''Compute'', ''VM'', ''Hours'', Double 3602879701896397 (- 54)),
                            (''Compute'', ''VM'', ''Hours'', Double 5404319552844595 (- 54))]
      = [(''Compute'', [(''VM'', [(''Hours'', Double 1351079888211149 (- 51))])])]"
    by code_simp
  have backward: "aggregate [(''Compute'', ''VM'', ''Hours'', Double 5404319552844595 (- 54)),
                             (''Compute'', ''VM'', ''Hours'', Double 3602879701896397 (- 54)),
                             (''Compute'', ''VM'', ''Hours'', Double 3602879701896397 (- 55))]
      = [(''Compute'', [(''VM'', [(''Hours'', Double 5404319552844595 (- 53))])])]"
    by code_simp
  have "as_mapping [(''Compute'', [(''VM'', [(''Hours'', Double 1351079888211149 (- 51))])])]
      \<noteq> as_mapping [(''Compute'', [(''VM'', [(''Hours'', Double 5404319552844595 (- 53))])])]"
  proof
    assume eq: "as_mapping [(''Compute'', [(''VM'', [(''Hours'', Double 1351079888211149 (- 51))])])]
      = as_mapping [(''Compute'', [(''VM'', [(''Hours'', Double 5404319552844595 (- 53))])])]"
    have "lookup3 sd c s u = (case as_mapping sd c of None \<Rightarrow> None
            | Some f \<Rightarrow> (case f s of None \<Rightarrow> None | Some g \<Rightarrow> g u))" for sd :: "double service_data" and c s u
      by (simp add: lookup3_def as_mapping_def split: option.splits)
    with eq have "lookup3 [(''Compute'', [(''VM'', [(''Hours'', Double 1351079888211149 (- 51))])])] ''Compute'' ''VM'' ''Hours''
        = lookup3 [(''Compute'', [(''VM'', [(''Hours'', Double 5404319552844595 (- 53))])])] ''Compute'' ''VM'' ''Hours''"
      by simp
    then show False by (simp add: lookup3_def)
  qed
  then show ?thesis unfolding forward backward by simp
qed


subsection \<open>Normalization of a row\<close>



text \<open>
  Claim C4, as amended. A row is left out of the analysis, without an error, exactly
  when its category is missing (\<^verbatim>\<open>nan\<close>, which is what an empty field is read as) or
  its amount cannot be read as a number: such a row can be removed from the input
  without changing the result. Every other row has an entry, and appending it changes
  the total of exactly one (category, subcategory, unit) triple, by adding its amount,
  from \<open>0\<close> when the triple is new.
\<close>

theorem C4_skipped_rows:
  "(if service_category r = NaN \<or> to_numeric parse (total_cell r) = None
    then normalize_row parse r = None
         \<and> analyze_azure_services parse (xs @ r # ys) = analyze_azure_services parse (xs @ ys)
    else (\<exists>c s u t. normalize_row parse r = Some (c, s, u, t)
           \<and> analyze_azure_services parse (xs @ [r]) = add_amount (analyze_azure_services parse xs) (c, s, u, t)
           \<and> (\<forall>c' s' u'. lookup3 (analyze_azure_services parse (xs @ [r])) c' s' u'
                 = (if c' = c \<and> s' = s \<and> u' = u
                    then Some ((case lookup3 (analyze_azure_services parse xs) c s u of
                                  None \<Rightarrow> 0 | Some x \<Rightarrow> x) + t)
                    else lookup3 (analyze_azure_services parse xs) c' s' u'))))"
proof (cases "service_category r = NaN \<or> to_numeric parse (total_cell r) = None")
  case True
  then have "clean_row parse r = None" by (simp add: clean_row_None_iff)
  then show ?thesis using True
    by (simp add: normalize_row_def analyze_azure_services_def df_clean_append df_clean_Cons)
next
  case False
  then obtain x where x: "clean_row parse r = Some x"
    using clean_row_None_iff [of parse r] by auto
  obtain c s u t where e: "row_entry x = (c, s, u, t)" by (cases "row_entry x") auto
  have n: "normalize_row parse r = Some (c, s, u, t)" by (simp add: normalize_row_def x e)
  have a: "analyze_azure_services parse (xs @ [r]) = add_amount (analyze_azure_services parse xs) (c, s, u, t)"
    by (simp add: analyze_azure_services_def aggregate_def df_clean_append df_clean_Cons df_clean_Nil x e)
  show ?thesis using False n a by (simp add: lookup3_add_amount)
qed

theorem C4_skipped_rows_witness:
  "analyze_azure_services (\<lambda>s. None)
     ([] @ \<lparr>service_category = Text ''Compute'', service_sub_category = Text ''VM'',
             service_unit = Text ''Hours'', total_cell = Raw ''n/a''\<rparr>
         # [\<lparr>service_category = Text ''Storage'', service_sub_category = NaN,
              service_unit = Text ''GB'', total_cell = Number (Double 3 0)\<rparr>])
   = analyze_azure_services (\<lambda>s. None)
       ([] @ [\<lparr>service_category = Text ''Storage'', service_sub_category = NaN,
                service_unit = Text ''GB'', total_cell = Number (Double 3 0)\<rparr>])"
  using C4_skipped_rows [of
      "\<lparr>service_category = Text ''Compute'', service_sub_category = Text ''VM'',
        service_unit = Text ''Hours'', total_cell = Raw ''n/a''\<rparr>"
      "\<lambda>s. None" "[]"
      "[\<lparr>service_category = Text ''Storage'', service_sub_category = NaN,
         service_unit = Text ''GB'', total_cell = Number (Double 3 0)\<rparr>]"]
  by simp

text \<open>
  Claim C4 as stated fails for a blank category: \<^verbatim>\<open>dropna\<close> removes missing values
  only, so a row whose category is two spaces is kept, under that key.
\<close>

theorem C4_blank_category_counterexample:
  "analyze_azure_services (\<lambda>s. None)
     [\<lparr>service_category = Text ''  '', service_sub_category = Text ''VM'',
       service_unit = Text ''Hours'', total_cell = Number (Double 5 0)\<rparr>]
   = [(''  '', [(''VM'', [(''Hours'', Double 5 0)])])]"
  by code_simp

text \<open>
  Claim C10. In every analysis, each subcategory key and each unit key is the sentinel
  \<open>N/A\<close> or a non-empty string that neither starts nor ends with whitespace.
\<close>

theorem C10_keys_trimmed_or_sentinel:
  assumes "(category, subcategories) \<in> set (analyze_azure_services parse df)"
    and "(subcategory, units) \<in> set subcategories"
  shows "trimmed_or_sentinel subcategory \<and> (\<forall>unit \<in> set (dict_keys units). trimmed_or_sentinel unit)"
  using keys_ok_analyze [of parse df] assms unfolding keys_ok_def by fastforce

theorem C10_keys_trimmed_or_sentinel_witness:
  "(''Storage'', [(''N/A'', [(''GB'', Double 3 0)])])
     \<in> set (analyze_azure_services (\<lambda>s. None)
          [\<lparr>service_category = Text ''Storage'', service_sub_category = Text '' '',
            service_unit = Text '' GB '', total_cell = Number (Double 3 0)\<rparr>])
   \<and> (''N/A'', [(''GB'', Double 3 0)]) \<in> set [(''N/A'', [(''GB'', Double 3 0)])]
   \<and> ''GB'' \<in> set (dict_keys [(''GB'', Double 3 0)])
   \<and> trimmed_or_sentinel ''N/A''
   \<and> trimmed_or_sentinel ''GB''"
proof -
  have a: "analyze_azure_services (\<lambda>s. None)
          [\<lparr>service_category = Text ''Storage'', service_sub_category = Text '' '',
            service_unit = Text '' GB '', total_cell = Number (Double 3 0)\<rparr>]
      = [(''Storage'', [(''N/A'', [(''GB'', Double 3 0)])])]"
    by code_simp
  have h1: "(''Storage'', [(''N/A'', [(''GB'', Double 3 0)])])
     \<in> set (analyze_azure_services (\<lambda>s. None)
          [\<lparr>service_category = Text ''Storage'', service_sub_category = Text '' '',
            service_unit = Text '' GB '', total_cell = Number (Double 3 0)\<rparr>])"
    unfolding a by simp
  have h2: "(''N/A'', [(''GB'', Double 3 0)]) \<in> set [(''N/A'', [(''GB'', Double 3 0)])]"
    by simp
  have h3: "''GB'' \<in> set (dict_keys [(''GB'', Double 3 0)])"
    by (simp add: dict_keys_def)
  show ?thesis using h1 h2 h3 C10_keys_trimmed_or_sentinel [OF h1 h2] by simp
qed

subsection \<open>Comparison\<close>

text \<open>
  Claim C5. The missing categories of the comparison of A with B are the added
  categories of the comparison of B with A, and the other way round.
\<close>

theorem C5_diff_symmetry:
  "fst (compare_service_data a b) = snd (compare_service_data b a)
   \<and> snd (compare_service_data a b) = fst (compare_service_data b a)"
  by (simp add: compare_service_data_def Let_def)

text \<open>
  Claim C7. Both lists that the comparison of two dictionaries returns are in ascending
  lexicographic order and free of duplicates; the first holds exactly the keys of the
  old dictionary that are not keys of the new one, the second the keys of the new
  dictionary that are not keys of the old one, keys being compared as whole strings.
\<close>

theorem C7_diff_sorted_distinct:
  "sorted (fst (compare_service_data (Some old) (Some new)))
   \<and> distinct (fst (compare_service_data (Some old) (Some new)))
   \<and> set (fst (compare_service_data (Some old) (Some new))) = fst ` set old - fst ` set new
   \<and> sorted (snd (compare_service_data (Some old) (Some new)))
   \<and> distinct (snd (compare_service_data (Some old) (Some new)))
   \<and> set (snd (compare_service_data (Some old) (Some new))) = fst ` set new - fst ` set old"
proof -
  have keys: "categories_of (Some d) = fst ` set d" for d :: "(string, 'a) dict"
    by (simp add: categories_of_def dict_keys_def)
  show ?thesis
    by (simp add: compare_service_data_def Let_def finite_categories_of)
       (simp add: keys)
qed

text \<open>Claim C9. Comparing data with itself reports no missing and no added category.\<close>

theorem C9_diff_identity: "compare_service_data a a = ([], [])"
  by (simp add: compare_service_data_def Let_def)




text \<open>
  Claim C6 holds for \<^verbatim>\<open>compare_service_data\<close> and fails for the side-by-side
  rendering: with \<^verbatim>\<open>None\<close> as the old data and one category in the new data,
  \<^verbatim>\<open>category in old_data\<close> raises a \<^verbatim>\<open>TypeError\<close>, while the empty dictionary in its
  place is rendered.
\<close>

theorem C6_display_none_raises:
  "display_dual_service_comparison None (Some [(''Storage'', [(''N/A'', [(''GB'', Double 3 0)])])])
     = Inl TypeError
   \<and> display_dual_service_comparison (Some []) (Some [(''Storage'', [(''N/A'', [(''GB'', Double 3 0)])])])
     = Inr [[(MissingLine ''Storage'', NewCategoryLine ''Storage''),
             (NoLine, SubcategoryLine ''N/A''),
             (NoLine, UnitLine ''GB'' (Double 3 0)),
             (NoLine, TotalLine (Double 3 0))]]"
  by code_simp

lemma detailed_comparison_none:
  "detailed_comparison paragraph None new_data = Inl AttributeError"
  "detailed_comparison paragraph old_data None = Inl AttributeError"
  by (simp_all add: detailed_comparison_def split: option.splits)

lemma compare_service_data_none:
  "compare_service_data None b = compare_service_data (Some []) b"
  "compare_service_data a None = compare_service_data a (Some [])"
  by (simp_all add: compare_service_data_def categories_of_def)

subsection \<open>The scenarios of the specification\<close>

lemma analyze_scenario:
  "analyze_azure_services (\<lambda>s. None)
     [\<lparr>service_category = Text ''Compute'', service_sub_category = Text ''VM'',
       service_unit = Text ''Hours'', total_cell = Number (Double 5 1)\<rparr>,
      \<lparr>service_category = Text ''Compute'', service_sub_category = Text ''VM'',
       service_unit = Text ''Hours'', total_cell = Number (Double 5 0)\<rparr>,
      \<lparr>service_category = Text ''Storage'', service_sub_category = NaN,
       service_unit = Text ''GB'', total_cell = Number (Double 3 0)\<rparr>]
   = [(''Compute'', [(''VM'', [(''Hours'', Double 15 0)])]),
      (''Storage'', [(''N/A'', [(''GB'', Double 3 0)])])]"
  by code_simp

lemma category_totals_scenario:
  "calculate_category_totals
     [(''Compute'', [(''VM'', [(''Hours'', Double 15 0)])]),
      (''Storage'', [(''N/A'', [(''GB'', Double 3 0)])])]
   = [(''Compute'', Double 15 0), (''Storage'', Double 3 0)]"
  by code_simp

lemma compare_scenario:
  "compare_service_data (Some [(''A'', [(''N/A'', [(''GB'', Double 1 0)])]), (''B'', [])])
                        (Some [(''B'', []), (''C'', [(''N/A'', [(''GB'', Double 1 0)])])])
   = ([''A''], [''C''])"
  by code_simp

lemma compare_case_sensitive:
  "compare_service_data (Some [(''b'', []), (''ab'', []), (''a'', []), (''B'', [])])
                        (Some [(''A'', [(''N/A'', [(''GB'', Double 1 0)])])])
   = ([''B'', ''a'', ''ab'', ''b''], [''A''])"
  by code_simp

end
